theory Spec2Isabelle
  imports Main
begin

section \<open>Go values handled by the handlers of server.go\<close>

text \<open>
  The collections of \<open>u.Data\<close>, the results of the \<open>find*\<close> and \<open>Get*\<close> methods and a
  POSTed client payload are \<open>interface{}\<close> values obtained by decoding JSON. Such a value
  is \<open>nil\<close>, a bool, a number, a string, a \<open>[]interface{}\<close> or a
  \<open>map[string]interface{}\<close>. No handler inspects a number, so its representation is
  immaterial; every value of this type can be encoded by \<open>encoding/json\<close>.
\<close>

datatype gval =
    GNil
  | GBool bool
  | GNum int
  | GStr string
  | GSlice "gval list"
  | GMap "(string \<times> gval) list"

text \<open>
  A Go slice variable is either \<open>nil\<close> (here \<open>None\<close>) or holds a sequence. \<open>len\<close> of a
  nil slice is 0; indexing beyond the length panics (here: no element).
\<close>

type_synonym 'a slice = "'a list option"

definition len :: "'a slice \<Rightarrow> nat" where
  "len s = (case s of None \<Rightarrow> 0 | Some xs \<Rightarrow> length xs)"

definition first :: "'a slice \<Rightarrow> 'a option" where
  "first s = (case s of None \<Rightarrow> None | Some [] \<Rightarrow> None | Some (x # _) \<Rightarrow> Some x)"

text \<open>The type assertions \<open>v.(map[string]interface{})\<close> and \<open>c["dc"].(string)\<close>
  in their two-result form: \<open>None\<close> is \<open>ok == false\<close>. Reading a missing key of a Go map
  gives \<open>nil\<close>, on which the assertion to \<open>string\<close> fails as well.\<close>

definition asMap :: "gval \<Rightarrow> (string \<times> gval) list option" where
  "asMap v = (case v of GMap c \<Rightarrow> Some c | _ \<Rightarrow> None)"

definition asString :: "gval option \<Rightarrow> string option" where
  "asString v = (case v of Some (GStr s) \<Rightarrow> Some s | _ \<Rightarrow> None)"

text \<open>\<open>strings.Split(s, "/")\<close>, \<open>strings.Join(xs, "/")\<close> and \<open>strings.Contains\<close>.\<close>

fun Split :: "string \<Rightarrow> string list" where
  "Split [] = [[]]"
| "Split (c # cs) =
     (if c = CHR ''/'' then [] # Split cs
      else (case Split cs of [] \<Rightarrow> [[c]] | w # ws \<Rightarrow> (c # w) # ws))"

fun Join :: "string list \<Rightarrow> string" where
  "Join [] = []"
| "Join [x] = x"
| "Join (x # y # ys) = x @ ''/'' @ Join (y # ys)"

fun hasPrefix :: "string \<Rightarrow> string \<Rightarrow> bool" where
  "hasPrefix s [] = True"
| "hasPrefix [] (p # ps) = False"
| "hasPrefix (c # cs) (p # ps) = (c = p \<and> hasPrefix cs ps)"

fun Contains :: "string \<Rightarrow> string \<Rightarrow> bool" where
  "Contains [] sub = (sub = [])"
| "Contains (c # cs) sub = (hasPrefix (c # cs) sub \<or> Contains cs sub)"

section \<open>Requests, tokens and payload structs\<close>

text \<open>
  \<open>*jwt.Token\<close>: the handlers read only \<open>token.Claims\<close>, a \<open>map[string]interface{}\<close>.
  \<open>authentication.GetJWTFromContext\<close> may return \<open>nil\<close>, hence \<open>token option\<close> below.
\<close>

record token =
  Claims :: "string \<rightharpoonup> gval"

text \<open>
  The structs \<open>silence\<close>, \<open>stash\<close> and \<open>structs.Subscription\<close> are declared outside
  server.go; the records hold the fields that server.go reads or writes (and, for a
  subscription, its datacenter). \<open>Content\<close> is a Go map, which may be \<open>nil\<close>.
\<close>

record silence =
  Dc :: string
  Creator :: string
  Expire :: int
  ExpireOnResolve :: bool
  Reason :: string

record stash =
  StashDc :: string
  Path_of :: string
  Content :: "(string \<times> gval) list option"

record Subscription =
  SubscriptionDc :: string
  Name :: string

text \<open>
  What a handler reads of \<open>*http.Request\<close>: the method, \<open>r.URL.Path\<close>,
  \<open>r.URL.Query().Get("dc")\<close> (empty when the parameter is absent),
  \<open>r.Header.Get("Accept-Encoding")\<close>, the token of the context and the result of
  \<open>json.NewDecoder(r.Body).Decode(&v)\<close> into the handler's variable of type \<open>'b\<close>
  (\<open>None\<close> when decoding returns an error).
\<close>

record 'b request =
  Method :: string
  Path :: string
  Query_dc :: string
  Accept_Encoding :: string
  Decoded :: "'b option"
  Token :: "token option"

section \<open>Responses\<close>

text \<open>
  The body records the Go value handed to the JSON encoder together with its static type:
  \<open>encoding/json\<close> writes a nil slice as \<open>null\<close> and a non-nil slice as an array.
\<close>

datatype doc =
    DVal gval
  | DSlice "gval slice"
  | DSubs "Subscription slice"

datatype body =
    NoBody
  | Text string
  | Json doc
  | Gzip doc

record response =
  header :: "(string \<times> string) list"
  status :: nat
  body :: body

text \<open>The JSON document a value is encoded to: \<open>None\<close> for \<open>null\<close>, the array length
  for an array, and nothing said (\<open>Some None\<close>) about other documents.\<close>

definition jsonArrayLen :: "doc \<Rightarrow> nat option option" where
  "jsonArrayLen d =
     (case d of
        DSlice None \<Rightarrow> None
      | DSlice (Some xs) \<Rightarrow> Some (Some (length xs))
      | DSubs None \<Rightarrow> None
      | DSubs (Some xs) \<Rightarrow> Some (Some (length xs))
      | DVal GNil \<Rightarrow> None
      | DVal (GSlice xs) \<Rightarrow> Some (Some (length xs))
      | DVal _ \<Rightarrow> Some None)"

text \<open>
  The \<open>http.ResponseWriter\<close> a handler starts from: net/http answers 200 when the handler
  never calls \<open>WriteHeader\<close>.
\<close>

definition w0 :: response where
  "w0 = \<lparr>header = [], status = 200, body = NoBody\<rparr>"

definition Header_Add :: "string \<Rightarrow> string \<Rightarrow> response \<Rightarrow> response" where
  "Header_Add k v w = w\<lparr>header := header w @ [(k, v)]\<rparr>"

definition Header_Set :: "string \<Rightarrow> string \<Rightarrow> response \<Rightarrow> response" where
  "Header_Set k v w = w\<lparr>header := filter (\<lambda>kv. fst kv \<noteq> k) (header w) @ [(k, v)]\<rparr>"

definition WriteHeader :: "nat \<Rightarrow> response \<Rightarrow> response" where
  "WriteHeader code w = w\<lparr>status := code\<rparr>"

definition Encode :: "doc \<Rightarrow> response \<Rightarrow> response" where
  "Encode d w = w\<lparr>body := Json d\<rparr>"

definition gzEncode :: "doc \<Rightarrow> response \<Rightarrow> response" where
  "gzEncode d w = w\<lparr>body := Gzip d\<rparr>"

text \<open>
  \<open>http.Error(w, msg, code)\<close> of net/http: sets the content type to plain text, writes
  the status and prints the message followed by a newline.
\<close>

definition http_Error :: "string \<Rightarrow> nat \<Rightarrow> response \<Rightarrow> response" where
  "http_Error msg code w =
     (WriteHeader code
        (Header_Set ''X-Content-Type-Options'' ''nosniff''
           (Header_Set ''Content-Type'' ''text/plain; charset=utf-8'' w)))
     \<lparr>body := Text (msg @ [CHR 0x0A])\<rparr>"

section \<open>The Uchiwa instance and its collaborators\<close>

record data =
  Aggregates :: "gval slice"
  Checks :: "gval slice"
  Clients :: "gval slice"
  Events :: "gval slice"
  Silenced :: "gval slice"
  Stashes :: "gval slice"
  Subscriptions :: "Subscription slice"

record users_options =
  DisableNoExpiration :: bool
  RequireSilencingReason :: bool

text \<open>\<open>u.Data\<close> and \<open>u.Config.Uchiwa.UsersOptions\<close>.\<close>

record uchiwa =
  Data :: data
  UsersOptions :: users_options

text \<open>
  The methods of \<open>*Uchiwa\<close> that the handlers call, with their arguments in the order of
  the source. The first group reads; the second group sends a command to a datacenter.
\<close>

datatype call =
    GetAggregate string string
  | GetAggregateChecks string string
  | GetAggregateClients string string
  | GetAggregateResults string string string
  | GetCheck string string
  | GetClient string string
  | GetClientHistory string string
  | DeleteAggregate string string
  | DeleteClient string string
  | ResolveEvent string string string
  | DeleteCheckResult string string string
  | DeleteStash string string
  | ClearSilenced silence
  | PostSilence silence
  | PostStash stash
  | UpdateClient gval

text \<open>
  Everything server.go calls and does not define: the package variable \<open>Filters\<close>, the
  resolver methods \<open>find*\<close>, the reading methods (\<open>access\<close>, keyed by the call) and the
  answer of the datacenter to a command (\<open>remote\<close>). An error is its message, as
  \<open>fmt.Sprint(err)\<close> prints it.
\<close>

record env =
  Filters_Aggregates :: "gval slice \<Rightarrow> token option \<Rightarrow> gval slice"
  Filters_Checks :: "gval slice \<Rightarrow> token option \<Rightarrow> gval slice"
  Filters_Clients :: "gval slice \<Rightarrow> token option \<Rightarrow> gval slice"
  Filters_Events :: "gval slice \<Rightarrow> token option \<Rightarrow> gval slice"
  Filters_Silenced :: "gval slice \<Rightarrow> token option \<Rightarrow> gval slice"
  Filters_Stashes :: "gval slice \<Rightarrow> token option \<Rightarrow> gval slice"
  Filters_Subscriptions :: "Subscription slice \<Rightarrow> token option \<Rightarrow> Subscription slice"
  Filters_Client :: "gval \<Rightarrow> token option \<Rightarrow> bool"
  Filters_GetRequest :: "string \<Rightarrow> token option \<Rightarrow> bool"
  findAggregate :: "uchiwa \<Rightarrow> string \<Rightarrow> string + gval slice"
  findCheck :: "uchiwa \<Rightarrow> string \<Rightarrow> string + gval slice"
  findClient :: "uchiwa \<Rightarrow> string \<Rightarrow> string + gval slice"
  findStash :: "uchiwa \<Rightarrow> string \<Rightarrow> string + gval slice"
  access :: "uchiwa \<Rightarrow> call \<Rightarrow> string + gval"
  remote :: "uchiwa \<Rightarrow> call \<Rightarrow> string option"

text \<open>
  Modelled from the spec: the command methods of \<open>*Uchiwa\<close> (\<open>DeleteAggregate\<close>,
  \<open>DeleteClient\<close>, \<open>ResolveEvent\<close>, \<open>DeleteCheckResult\<close>, \<open>DeleteStash\<close>,
  \<open>ClearSilenced\<close>, \<open>PostSilence\<close>, \<open>PostStash\<close>, \<open>UpdateClient\<close>) are not part of
  server.go. Section 4.5 of the specification: the dispatcher issues the remote call and
  returns its outcome; it does not mutate the cache, which the next poll reconciles.
  The result is the error of the method (\<open>None\<close> for \<open>nil\<close>) and the instance afterwards.
\<close>

definition Dispatch :: "env \<Rightarrow> uchiwa \<Rightarrow> call \<Rightarrow> string option \<times> uchiwa" where
  "Dispatch env u c = (remote env u c, u)"

section \<open>Results of a handler\<close>

text \<open>
  A handler either returns, leaving a response, or panics (an index out of range, a failed
  type assertion, a write to a nil map). \<open>calls\<close> lists the reading and command methods
  it has invoked, in order; \<open>state\<close> is the instance afterwards.
\<close>

datatype outcome = Panic | Reply response

record result =
  out :: outcome
  calls :: "call list"
  state :: uchiwa

definition reply :: "uchiwa \<Rightarrow> call list \<Rightarrow> response \<Rightarrow> result" where
  "reply u cs w = \<lparr>out = Reply w, calls = cs, state = u\<rparr>"

definition panic :: "uchiwa \<Rightarrow> call list \<Rightarrow> result" where
  "panic u cs = \<lparr>out = Panic, calls = cs, state = u\<rparr>"

section \<open>Resolution of a lookup without datacenter\<close>

text \<open>
  The response with status 300 written when more than one match is visible
  (lines 56-85, 250-279, 389-418, 691-719, 940-968, 1028-1056).
\<close>

definition multipleChoices :: "gval slice \<Rightarrow> 'b request \<Rightarrow> response" where
  "multipleChoices visible r =
     (let w = Header_Add ''Content-Type'' ''application/json''
                (Header_Add ''Accept-Charset'' ''utf-8'' w0)
      in if \<not> Contains (Accept_Encoding r) ''gzip''
         then Encode (DSlice visible) (WriteHeader 300 w)
         else gzEncode (DSlice visible)
                (WriteHeader 300 (Header_Add ''Content-Encoding'' ''gzip'' w)))"

text \<open>
  The block \<open>if dc == "" { ... }\<close>, which server.go repeats word for word in
  aggregateHandler, checkHandler, clientHandler, eventHandler, resultsHandler and
  stashHandler, differing only in the \<open>find*\<close> method and the filter. \<open>found\<close> is the
  result of the \<open>find*\<close> call. \<open>Inr dc\<close>: the block ends with \<open>dc\<close> assigned; \<open>Inl\<close>: the
  handler has returned or panicked inside the block. When the type assertions fail, the
  source prints \<open>err\<close>, which is \<open>nil\<close> at that point.
\<close>

definition resolveDatacenter ::
  "string + gval slice \<Rightarrow> (gval slice \<Rightarrow> token option \<Rightarrow> gval slice) \<Rightarrow> 'b request
     \<Rightarrow> outcome + string" where
  "resolveDatacenter found filt r =
     (case found of
        Inl err \<Rightarrow> Inl (Reply (http_Error err 404 w0))
      | Inr objs \<Rightarrow>
          (let visible = filt objs (Token r) in
           if len visible > 1 then Inl (Reply (multipleChoices visible r))
           else (case first objs of
                   None \<Rightarrow> Inl Panic
                 | Some v \<Rightarrow>
                     (case asMap v of
                        None \<Rightarrow> Inl (Reply (http_Error ''<nil>'' 500 w0))
                      | Some c \<Rightarrow>
                          (case asString (map_of c ''dc'') of
                             None \<Rightarrow> Inl (Reply (http_Error ''<nil>'' 500 w0))
                           | Some dc \<Rightarrow> Inr dc)))))"

text \<open>
  \<open>dc := r.URL.Query().Get("dc")\<close> followed by that block: the datacenter the request
  is aimed at, given by the client or resolved from the name.
\<close>

definition targetDatacenter ::
  "(string \<Rightarrow> string + gval slice) \<Rightarrow> (gval slice \<Rightarrow> token option \<Rightarrow> gval slice)
     \<Rightarrow> string \<Rightarrow> 'b request \<Rightarrow> outcome + string" where
  "targetDatacenter finder filt name r =
     (let dc = Query_dc r in
      if dc = [] then resolveDatacenter (finder name) filt r else Inr dc)"

section \<open>Handlers of single objects\<close>

definition checkHandler :: "env \<Rightarrow> uchiwa \<Rightarrow> 'b request \<Rightarrow> result" where
  "checkHandler env u r =
     (if Method r \<noteq> ''GET'' \<and> Method r \<noteq> ''HEAD'' then reply u [] (http_Error [] 400 w0)
      else
        let token = Token r; resources = Split (Path r) in
        if length resources < 3 \<or> resources ! 2 = [] then reply u [] (http_Error [] 400 w0)
        else
          let name = resources ! 2 in
          (case targetDatacenter (findCheck env u) (Filters_Checks env) name r of
             Inl stop \<Rightarrow> \<lparr>out = stop, calls = [], state = u\<rparr>
           | Inr dc \<Rightarrow>
               if Filters_GetRequest env dc token then reply u [] (http_Error [] 404 w0)
               else
                 (case access env u (GetCheck dc name) of
                    Inl err \<Rightarrow> reply u [GetCheck dc name] (http_Error err 404 w0)
                  | Inr data \<Rightarrow> reply u [GetCheck dc name] (Encode (DVal data) w0))))"

definition clientHandler :: "env \<Rightarrow> uchiwa \<Rightarrow> 'b request \<Rightarrow> result" where
  "clientHandler env u r =
     (if Method r \<noteq> ''DELETE'' \<and> Method r \<noteq> ''GET'' \<and> Method r \<noteq> ''HEAD''
      then reply u [] (http_Error [] 400 w0)
      else
        let token = Token r; resources = Split (Path r) in
        if length resources < 3 \<or> resources ! 2 = [] then reply u [] (http_Error [] 400 w0)
        else
          let name = resources ! 2 in
          (case targetDatacenter (findClient env u) (Filters_Clients env) name r of
             Inl stop \<Rightarrow> \<lparr>out = stop, calls = [], state = u\<rparr>
           | Inr dc \<Rightarrow>
               if Filters_GetRequest env dc token then reply u [] (http_Error [] 404 w0)
               else if Method r = ''DELETE'' then
                 (case Dispatch env u (DeleteClient dc name) of
                    (Some err, u') \<Rightarrow> reply u' [DeleteClient dc name] (http_Error err 500 w0)
                  | (None, u') \<Rightarrow> reply u' [DeleteClient dc name] (WriteHeader 202 w0))
               else if length resources = 4 then
                 (case access env u (GetClientHistory dc name) of
                    Inl err \<Rightarrow> reply u [GetClientHistory dc name] (http_Error err 404 w0)
                  | Inr data \<Rightarrow> reply u [GetClientHistory dc name] (Encode (DVal data) w0))
               else
                 (case access env u (GetClient dc name) of
                    Inl err \<Rightarrow> reply u [GetClient dc name] (http_Error err 404 w0)
                  | Inr data \<Rightarrow> reply u [GetClient dc name] (Encode (DVal data) w0))))"

definition aggregateHandler :: "env \<Rightarrow> uchiwa \<Rightarrow> 'b request \<Rightarrow> result" where
  "aggregateHandler env u r =
     (if Method r \<noteq> ''GET'' \<and> Method r \<noteq> ''HEAD'' \<and> Method r \<noteq> ''DELETE''
      then reply u [] (http_Error [] 400 w0)
      else
        let resources = Split (Path r) in
        if length resources < 3 \<or> resources ! 2 = [] then reply u [] (http_Error [] 400 w0)
        else
          let name = resources ! 2; token = Token r in
          (case targetDatacenter (findAggregate env u) (Filters_Aggregates env) name r of
             Inl stop \<Rightarrow> \<lparr>out = stop, calls = [], state = u\<rparr>
           | Inr dc \<Rightarrow>
               if Filters_GetRequest env dc token then reply u [] (http_Error [] 404 w0)
               else if length resources = 3 then
                 (if Method r = ''DELETE'' then
                    (case Dispatch env u (DeleteAggregate name dc) of
                       (Some err, u') \<Rightarrow>
                         reply u' [DeleteAggregate name dc] (http_Error err 500 w0)
                     | (None, u') \<Rightarrow> reply u' [DeleteAggregate name dc] w0)
                  else
                    (case access env u (GetAggregate name dc) of
                       Inl err \<Rightarrow> reply u [GetAggregate name dc] (http_Error err 500 w0)
                     | Inr aggregate \<Rightarrow>
                         reply u [GetAggregate name dc] (Encode (DVal aggregate) w0)))
               else if length resources = 4 then
                 (if resources ! 3 = ''checks'' then
                    (case access env u (GetAggregateChecks name dc) of
                       Inl err \<Rightarrow> reply u [GetAggregateChecks name dc] (http_Error err 500 w0)
                     | Inr data \<Rightarrow>
                         reply u [GetAggregateChecks name dc] (Encode (DVal data) w0))
                  else if resources ! 3 = ''clients'' then
                    (case access env u (GetAggregateClients name dc) of
                       Inl err \<Rightarrow> reply u [GetAggregateClients name dc] (http_Error err 500 w0)
                     | Inr data \<Rightarrow>
                         reply u [GetAggregateClients name dc] (Encode (DVal data) w0))
                  else reply u [] (http_Error ''<nil>'' 404 w0))
               else if length resources = 5 then
                 (let severity = resources ! 4 in
                  case access env u (GetAggregateResults name severity dc) of
                    Inl err \<Rightarrow>
                      reply u [GetAggregateResults name severity dc] (http_Error err 500 w0)
                  | Inr data \<Rightarrow>
                      reply u [GetAggregateResults name severity dc] (Encode (DVal data) w0))
               else reply u [] (http_Error [] 400 w0)))"

definition eventHandler :: "env \<Rightarrow> uchiwa \<Rightarrow> 'b request \<Rightarrow> result" where
  "eventHandler env u r =
     (if Method r \<noteq> ''DELETE'' then reply u [] (http_Error [] 400 w0)
      else
        let resources = Split (Path r) in
        if length resources \<noteq> 4 then reply u [] (http_Error [] 400 w0)
        else
          let check = resources ! 3; client = resources ! 2; token = Token r in
          (case targetDatacenter (findClient env u) (Filters_Clients env) client r of
             Inl stop \<Rightarrow> \<lparr>out = stop, calls = [], state = u\<rparr>
           | Inr dc \<Rightarrow>
               if Filters_GetRequest env dc token then reply u [] (http_Error [] 404 w0)
               else
                 (case Dispatch env u (ResolveEvent check client dc) of
                    (Some err, u') \<Rightarrow>
                      reply u' [ResolveEvent check client dc] (http_Error err 500 w0)
                  | (None, u') \<Rightarrow>
                      reply u' [ResolveEvent check client dc] (WriteHeader 202 w0))))"

definition resultsHandler :: "env \<Rightarrow> uchiwa \<Rightarrow> 'b request \<Rightarrow> result" where
  "resultsHandler env u r =
     (if Method r \<noteq> ''DELETE'' then reply u [] (http_Error [] 400 w0)
      else
        let resources = Split (Path r) in
        if length resources \<noteq> 4 then reply u [] (http_Error [] 400 w0)
        else
          let check = resources ! 3; client = resources ! 2; token = Token r in
          (case targetDatacenter (findClient env u) (Filters_Clients env) client r of
             Inl stop \<Rightarrow> \<lparr>out = stop, calls = [], state = u\<rparr>
           | Inr dc \<Rightarrow>
               if Filters_GetRequest env dc token then reply u [] (http_Error [] 404 w0)
               else
                 (case Dispatch env u (DeleteCheckResult check client dc) of
                    (Some err, u') \<Rightarrow>
                      reply u' [DeleteCheckResult check client dc] (http_Error err 500 w0)
                  | (None, u') \<Rightarrow>
                      reply u' [DeleteCheckResult check client dc] (WriteHeader 202 w0))))"

text \<open>
  stashHandler and subscriptionHandler test \<open>len(resources) < 2\<close> and then read
  \<open>resources[2]\<close>, which panics on a path of exactly two parts.
\<close>

definition stashHandler :: "env \<Rightarrow> uchiwa \<Rightarrow> 'b request \<Rightarrow> result" where
  "stashHandler env u r =
     (if Method r \<noteq> ''DELETE'' then reply u [] (http_Error [] 400 w0)
      else
        let resources = Split (Path r) in
        if length resources < 2 then reply u [] (http_Error [] 400 w0)
        else if length resources < 3 then panic u []
        else if resources ! 2 = [] then reply u [] (http_Error [] 400 w0)
        else
          let path = Join (drop 2 resources); token = Token r in
          (case targetDatacenter (findStash env u) (Filters_Stashes env) path r of
             Inl stop \<Rightarrow> \<lparr>out = stop, calls = [], state = u\<rparr>
           | Inr dc \<Rightarrow>
               if Filters_GetRequest env dc token then reply u [] (http_Error [] 404 w0)
               else
                 (case Dispatch env u (DeleteStash dc path) of
                    (Some err, u') \<Rightarrow>
                      reply u' [DeleteStash dc path]
                        (http_Error ''Could not create the stash'' 404 w0)
                  | (None, u') \<Rightarrow> reply u' [DeleteStash dc path] (WriteHeader 202 w0))))"


section \<open>Handlers of collections\<close>

text \<open>
  The GET branch that aggregatesHandler, checksHandler, clientsHandler, eventsHandler,
  silencedHandler and stashesHandler share word for word, from the filtered slice on:
  an empty result is replaced by \<open>make([]interface{}, 0)\<close>, then the slice is encoded,
  compressed when the client accepts gzip.
\<close>

definition collectionResponse :: "gval slice \<Rightarrow> 'b request \<Rightarrow> response" where
  "collectionResponse filtered r =
     (let objs = (if len filtered = 0 then Some [] else filtered);
          w = Header_Add ''Content-Type'' ''application/json''
                (Header_Add ''Accept-Charset'' ''utf-8'' w0)
      in if \<not> Contains (Accept_Encoding r) ''gzip'' then Encode (DSlice objs) w
         else gzEncode (DSlice objs) (Header_Set ''Content-Encoding'' ''gzip'' w))"

definition aggregatesHandler :: "env \<Rightarrow> uchiwa \<Rightarrow> 'b request \<Rightarrow> result" where
  "aggregatesHandler env u r =
     (if Method r \<noteq> ''GET'' \<and> Method r \<noteq> ''HEAD'' then reply u [] (http_Error [] 400 w0)
      else
        let token = Token r;
            aggregates = Filters_Aggregates env (Aggregates (Data u)) token
        in reply u [] (collectionResponse aggregates r))"

definition checksHandler :: "env \<Rightarrow> uchiwa \<Rightarrow> 'b request \<Rightarrow> result" where
  "checksHandler env u r =
     (if Method r \<noteq> ''GET'' \<and> Method r \<noteq> ''HEAD'' then reply u [] (http_Error [] 400 w0)
      else
        let token = Token r;
            checks = Filters_Checks env (Checks (Data u)) token
        in reply u [] (collectionResponse checks r))"

definition eventsHandler :: "env \<Rightarrow> uchiwa \<Rightarrow> 'b request \<Rightarrow> result" where
  "eventsHandler env u r =
     (if Method r \<noteq> ''GET'' \<and> Method r \<noteq> ''HEAD'' then reply u [] (http_Error [] 400 w0)
      else
        let token = Token r;
            events = Filters_Events env (Events (Data u)) token
        in reply u [] (collectionResponse events r))"

definition subscriptionsHandler :: "env \<Rightarrow> uchiwa \<Rightarrow> 'b request \<Rightarrow> result" where
  "subscriptionsHandler env u r =
     (if Method r \<noteq> ''GET'' \<and> Method r \<noteq> ''HEAD'' then reply u [] (http_Error [] 400 w0)
      else
        let token = Token r;
            filtered = Filters_Subscriptions env (Subscriptions (Data u)) token;
            subscriptions = (if len filtered = 0 then Some [] else filtered)
        in reply u [] (Encode (DSubs subscriptions) w0))"

definition clientsHandler :: "env \<Rightarrow> uchiwa \<Rightarrow> gval request \<Rightarrow> result" where
  "clientsHandler env u r =
     (if Method r = ''GET'' \<or> Method r = ''HEAD'' then
        (let token = Token r;
             clients = Filters_Clients env (Clients (Data u)) token
         in reply u [] (collectionResponse clients r))
      else if Method r = ''POST'' then
        (case Decoded r of
           None \<Rightarrow> reply u [] (http_Error ''Could not decode body'' 500 w0)
         | Some payload \<Rightarrow>
             let token = Token r; authorized = Filters_Client env payload token in
             if \<not> authorized then reply u [] (http_Error [] 404 w0)
             else
               (case Dispatch env u (UpdateClient payload) of
                  (Some err, u') \<Rightarrow> reply u' [UpdateClient payload] (http_Error err 400 w0)
                | (None, u') \<Rightarrow> reply u' [UpdateClient payload] (WriteHeader 201 w0)))
      else reply u [] (http_Error [] 400 w0))"

text \<open>
  \<open>token != nil && token.Claims["username"] != nil\<close>: the claim when the test holds.
  A key that is absent and a key bound to \<open>nil\<close> both read as \<open>nil\<close>.
\<close>

definition usernameClaim :: "token option \<Rightarrow> gval option" where
  "usernameClaim tok =
     (case tok of
        None \<Rightarrow> None
      | Some t \<Rightarrow>
          (case Claims t ''username'' of
             None \<Rightarrow> None
           | Some v \<Rightarrow> (if v = GNil then None else Some v)))"

text \<open>\<open>data.Creator = token.Claims["username"].(string)\<close>: the assertion has no
  \<open>ok\<close> result, so a claim that is not a string panics (\<open>None\<close>).\<close>

definition setCreator :: "token option \<Rightarrow> silence \<Rightarrow> silence option" where
  "setCreator tok d =
     (case usernameClaim tok of
        None \<Rightarrow> Some d
      | Some v \<Rightarrow> (case v of GStr name \<Rightarrow> Some (d\<lparr>Creator := name\<rparr>) | _ \<Rightarrow> None))"

definition silencedHandler :: "env \<Rightarrow> uchiwa \<Rightarrow> silence request \<Rightarrow> result" where
  "silencedHandler env u r =
     (let token = Token r in
      if Method r = ''GET'' \<or> Method r = ''HEAD'' then
        (let silenced = Filters_Silenced env (Silenced (Data u)) token
         in reply u [] (collectionResponse silenced r))
      else if Method r = ''POST'' then
        (case Decoded r of
           None \<Rightarrow> reply u [] (http_Error ''Could not decode body'' 500 w0)
         | Some data0 \<Rightarrow>
             if Filters_GetRequest env (Dc data0) token then reply u [] (http_Error [] 404 w0)
             else
               (case setCreator token data0 of
                  None \<Rightarrow> panic u []
                | Some data \<Rightarrow>
                    let resources = Split (Path r) in
                    if length resources > 2 \<and> resources ! 2 = ''clear'' then
                      (case Dispatch env u (ClearSilenced data) of
                         (Some err, u') \<Rightarrow>
                           reply u' [ClearSilenced data]
                             (http_Error ''Could not clear from entry in the silenced registry''
                                404 w0)
                       | (None, u') \<Rightarrow> reply u' [ClearSilenced data] w0)
                    else if DisableNoExpiration (UsersOptions u)
                            \<and> (Expire data < 1 \<and> \<not> ExpireOnResolve data) then
                      reply u [] (http_Error ''Open-ended silence entries are disallowed'' 404 w0)
                    else if RequireSilencingReason (UsersOptions u) \<and> Reason data = [] then
                      reply u []
                        (http_Error ''A reason must be provided for every silence entry'' 404 w0)
                    else
                      (case Dispatch env u (PostSilence data) of
                         (Some err, u') \<Rightarrow>
                           reply u' [PostSilence data]
                             (http_Error ''Could not create the entry in the silenced registry''
                                404 w0)
                       | (None, u') \<Rightarrow> reply u' [PostSilence data] w0)))
      else reply u [] (http_Error [] 400 w0))"

text \<open>\<open>data.Content["username"] = token.Claims["username"]\<close>: the assignment to a key
  of a Go map; on a nil map it panics (\<open>None\<close>).\<close>

fun setKey :: "string \<Rightarrow> gval \<Rightarrow> (string \<times> gval) list \<Rightarrow> (string \<times> gval) list" where
  "setKey k v [] = [(k, v)]"
| "setKey k v (p # ps) = (if fst p = k then (k, v) # ps else p # setKey k v ps)"

definition setUsername :: "token option \<Rightarrow> stash \<Rightarrow> stash option" where
  "setUsername tok d =
     (case usernameClaim tok of
        None \<Rightarrow> Some d
      | Some v \<Rightarrow>
          (case Content d of
             None \<Rightarrow> None
           | Some c \<Rightarrow> Some (d\<lparr>Content := Some (setKey ''username'' v c)\<rparr>)))"

definition stashesHandler :: "env \<Rightarrow> uchiwa \<Rightarrow> stash request \<Rightarrow> result" where
  "stashesHandler env u r =
     (let token = Token r in
      if Method r = ''GET'' \<or> Method r = ''HEAD'' then
        (let stashes = Filters_Stashes env (Stashes (Data u)) token
         in reply u [] (collectionResponse stashes r))
      else if Method r = ''POST'' then
        (case Decoded r of
           None \<Rightarrow> reply u [] (http_Error ''Could not decode body'' 500 w0)
         | Some data0 \<Rightarrow>
             if Filters_GetRequest env (StashDc data0) token
             then reply u [] (http_Error [] 404 w0)
             else
               (case setUsername token data0 of
                  None \<Rightarrow> panic u []
                | Some data \<Rightarrow>
                    (case Dispatch env u (PostStash data) of
                       (Some err, u') \<Rightarrow>
                         reply u' [PostStash data]
                           (http_Error ''Could not create the stash'' 404 w0)
                     | (None, u') \<Rightarrow> reply u' [PostStash data] w0)))
      else reply u [] (http_Error [] 400 w0))"

section \<open>Observations on a result\<close>

text \<open>
  The handler has answered 200 with a JSON array of length zero (plain or compressed).
\<close>

definition emptyArrayReply :: "result \<Rightarrow> bool" where
  "emptyArrayReply res =
     (case out res of
        Panic \<Rightarrow> False
      | Reply w \<Rightarrow>
          status w = 200
          \<and> (case body w of
                Json d \<Rightarrow> jsonArrayLen d = Some (Some 0)
              | Gzip d \<Rightarrow> jsonArrayLen d = Some (Some 0)
              | _ \<Rightarrow> False))"

text \<open>The handler has called \<open>PostSilence\<close>, with whatever payload.\<close>

definition issuesPostSilence :: "result \<Rightarrow> bool" where
  "issuesPostSilence res =
     list_ex (\<lambda>c. case c of PostSilence _ \<Rightarrow> True | _ \<Rightarrow> False) (calls res)"

text \<open>The creator of the silence entry that a call carries to a datacenter.\<close>

definition forwardedCreator :: "call \<Rightarrow> string option" where
  "forwardedCreator c =
     (case c of
        ClearSilenced s \<Rightarrow> Some (Creator s)
      | PostSilence s \<Rightarrow> Some (Creator s)
      | _ \<Rightarrow> None)"

section \<open>A sample deployment\<close>

text \<open>
  Two datacenters, \<open>east\<close> and \<open>west\<close>, on which the handlers are run at concrete
  requests. Objects are maps with the keys \<open>dc\<close> and \<open>name\<close>. The sample filters follow
  section 4.4 of the specification: an identity is given by the datacenters its token
  lists, an object is visible when its datacenter is among them, and \<open>GetRequest\<close>
  answers \<open>true\<close> (unauthorized) for every other datacenter.
\<close>

definition obj :: "string \<Rightarrow> string \<Rightarrow> gval" where
  "obj dc name = GMap [(''dc'', GStr dc), (''name'', GStr name)]"

definition objField :: "string \<Rightarrow> gval \<Rightarrow> string option" where
  "objField k v = (case asMap v of None \<Rightarrow> None | Some c \<Rightarrow> asString (map_of c k))"

definition allowed :: "token option \<Rightarrow> string list" where
  "allowed tok =
     (case tok of
        None \<Rightarrow> []
      | Some t \<Rightarrow>
          (case Claims t ''datacenters'' of
             Some (GSlice ds) \<Rightarrow> List.map_filter (\<lambda>v. asString (Some v)) ds
           | _ \<Rightarrow> []))"

definition sampleFilter :: "gval slice \<Rightarrow> token option \<Rightarrow> gval slice" where
  "sampleFilter objs tok =
     map_option
       (filter (\<lambda>v. case objField ''dc'' v of None \<Rightarrow> False | Some d \<Rightarrow> d \<in> set (allowed tok)))
       objs"

definition sampleFind :: "gval slice \<Rightarrow> string \<Rightarrow> string + gval slice" where
  "sampleFind objs name =
     (let ms = filter (\<lambda>v. objField ''name'' v = Some name)
                 (case objs of None \<Rightarrow> [] | Some xs \<Rightarrow> xs)
      in if ms = [] then Inl (''Could not find '' @ name) else Inr (Some ms))"

definition sampleGet :: "gval slice \<Rightarrow> string \<Rightarrow> string \<Rightarrow> string + gval" where
  "sampleGet objs dc name =
     (case filter (\<lambda>v. objField ''dc'' v = Some dc \<and> objField ''name'' v = Some name)
             (case objs of None \<Rightarrow> [] | Some xs \<Rightarrow> xs) of
        [] \<Rightarrow> Inl (''Could not find '' @ name @ '' in '' @ dc)
      | v # _ \<Rightarrow> Inr v)"

definition sampleAccess :: "uchiwa \<Rightarrow> call \<Rightarrow> string + gval" where
  "sampleAccess u c =
     (case c of
        GetCheck dc name \<Rightarrow> sampleGet (Checks (Data u)) dc name
      | GetClient dc name \<Rightarrow> sampleGet (Clients (Data u)) dc name
      | GetAggregate name dc \<Rightarrow> sampleGet (Aggregates (Data u)) dc name
      | _ \<Rightarrow> Inl ''not supported by the sample'')"

definition sampleEnv :: env where
  "sampleEnv =
     \<lparr>Filters_Aggregates = sampleFilter,
      Filters_Checks = sampleFilter,
      Filters_Clients = sampleFilter,
      Filters_Events = sampleFilter,
      Filters_Silenced = sampleFilter,
      Filters_Stashes = sampleFilter,
      Filters_Subscriptions =
        (\<lambda>subs tok. map_option (filter (\<lambda>s. allowed tok \<noteq> [])) subs),
      Filters_Client =
        (\<lambda>v tok. case objField ''dc'' v of None \<Rightarrow> False | Some d \<Rightarrow> d \<in> set (allowed tok)),
      Filters_GetRequest = (\<lambda>dc tok. dc \<notin> set (allowed tok)),
      findAggregate = (\<lambda>u. sampleFind (Aggregates (Data u))),
      findCheck = (\<lambda>u. sampleFind (Checks (Data u))),
      findClient = (\<lambda>u. sampleFind (Clients (Data u))),
      findStash = (\<lambda>u. sampleFind (Stashes (Data u))),
      access = sampleAccess,
      remote = (\<lambda>u c. None)\<rparr>"

definition sampleUchiwa :: uchiwa where
  "sampleUchiwa =
     \<lparr>Data =
        \<lparr>Aggregates = Some [obj ''east'' ''load'', obj ''west'' ''load''],
         Checks = Some [obj ''west'' ''cpu'', obj ''east'' ''cpu'', obj ''east'' ''disk''],
         Clients = Some [obj ''east'' ''web01'', obj ''west'' ''web01'', obj ''west'' ''db01''],
         Events = Some [obj ''west'' ''db01''],
         Silenced = None,
         Stashes = Some [obj ''east'' ''silence/web01'', obj ''west'' ''silence/web01''],
         Subscriptions = Some [\<lparr>SubscriptionDc = ''east'', Name = ''linux''\<rparr>]\<rparr>,
      UsersOptions = \<lparr>DisableNoExpiration = True, RequireSilencingReason = True\<rparr>\<rparr>"

text \<open>Three identities: one with access to \<open>east\<close> only, one with access to both
  datacenters, one with access to none.\<close>

definition eastViewer :: "token option" where
  "eastViewer =
     Some \<lparr>Claims = [''username'' \<mapsto> GStr ''alice'',
                     ''datacenters'' \<mapsto> GSlice [GStr ''east'']]\<rparr>"

definition operator :: "token option" where
  "operator =
     Some \<lparr>Claims = [''username'' \<mapsto> GStr ''root'',
                     ''datacenters'' \<mapsto> GSlice [GStr ''east'', GStr ''west'']]\<rparr>"

definition stranger :: "token option" where
  "stranger = Some \<lparr>Claims = [''username'' \<mapsto> GStr ''eve'']\<rparr>"

definition mkRequest :: "string \<Rightarrow> string \<Rightarrow> string \<Rightarrow> 'b option \<Rightarrow> token option \<Rightarrow> 'b request" where
  "mkRequest m p dc b tok =
     \<lparr>Method = m, Path = p, Query_dc = dc, Accept_Encoding = [], Decoded = b, Token = tok\<rparr>"

section \<open>Facts shared by the claims\<close>

lemma target_find_error:
  "Query_dc r = [] \<Longrightarrow> finder name = Inl err \<Longrightarrow>
   targetDatacenter finder filt name r = Inl (Reply (http_Error err 404 w0))"
  by (simp add: targetDatacenter_def resolveDatacenter_def)

lemma target_multiple:
  "Query_dc r = [] \<Longrightarrow> finder name = Inr objs \<Longrightarrow> 1 < len (filt objs (Token r)) \<Longrightarrow>
   targetDatacenter finder filt name r = Inl (Reply (multipleChoices (filt objs (Token r)) r))"
  by (simp add: targetDatacenter_def resolveDatacenter_def)

lemma checkHandler_stop:
  "Method r = ''GET'' \<or> Method r = ''HEAD'' \<Longrightarrow> 3 \<le> length (Split (Path r)) \<Longrightarrow>
   Split (Path r) ! 2 \<noteq> [] \<Longrightarrow>
   targetDatacenter (findCheck env u) (Filters_Checks env) (Split (Path r) ! 2) r = Inl stop \<Longrightarrow>
   checkHandler env u r = \<lparr>out = stop, calls = [], state = u\<rparr>"
  by (auto simp add: checkHandler_def Let_def)

lemma clientHandler_stop:
  "Method r = ''DELETE'' \<or> Method r = ''GET'' \<or> Method r = ''HEAD'' \<Longrightarrow> 3 \<le> length (Split (Path r)) \<Longrightarrow>
   Split (Path r) ! 2 \<noteq> [] \<Longrightarrow>
   targetDatacenter (findClient env u) (Filters_Clients env) (Split (Path r) ! 2) r = Inl stop \<Longrightarrow>
   clientHandler env u r = \<lparr>out = stop, calls = [], state = u\<rparr>"
  by (auto simp add: clientHandler_def Let_def)

lemma aggregateHandler_stop:
  "Method r = ''GET'' \<or> Method r = ''HEAD'' \<or> Method r = ''DELETE'' \<Longrightarrow> 3 \<le> length (Split (Path r)) \<Longrightarrow>
   Split (Path r) ! 2 \<noteq> [] \<Longrightarrow>
   targetDatacenter (findAggregate env u) (Filters_Aggregates env) (Split (Path r) ! 2) r = Inl stop \<Longrightarrow>
   aggregateHandler env u r = \<lparr>out = stop, calls = [], state = u\<rparr>"
  by (auto simp add: aggregateHandler_def Let_def)

lemma eventHandler_stop:
  "Method r = ''DELETE'' \<Longrightarrow> length (Split (Path r)) = 4 \<Longrightarrow>
   targetDatacenter (findClient env u) (Filters_Clients env) (Split (Path r) ! 2) r = Inl stop \<Longrightarrow>
   eventHandler env u r = \<lparr>out = stop, calls = [], state = u\<rparr>"
  by (auto simp add: eventHandler_def Let_def)

lemma resultsHandler_stop:
  "Method r = ''DELETE'' \<Longrightarrow> length (Split (Path r)) = 4 \<Longrightarrow>
   targetDatacenter (findClient env u) (Filters_Clients env) (Split (Path r) ! 2) r = Inl stop \<Longrightarrow>
   resultsHandler env u r = \<lparr>out = stop, calls = [], state = u\<rparr>"
  by (auto simp add: resultsHandler_def Let_def)

lemma stashHandler_stop:
  "Method r = ''DELETE'' \<Longrightarrow> 3 \<le> length (Split (Path r)) \<Longrightarrow> Split (Path r) ! 2 \<noteq> [] \<Longrightarrow>
   targetDatacenter (findStash env u) (Filters_Stashes env) (Join (drop 2 (Split (Path r)))) r = Inl stop \<Longrightarrow>
   stashHandler env u r = \<lparr>out = stop, calls = [], state = u\<rparr>"
  by (auto simp add: stashHandler_def Let_def)

lemmas sample_simps = sampleEnv_def sampleUchiwa_def sampleFilter_def sampleFind_def sampleGet_def
  sampleAccess_def allowed_def objField_def obj_def eastViewer_def operator_def stranger_def
  mkRequest_def map_filter_simps asMap_def asString_def len_def first_def

lemmas response_simps = reply_def panic_def http_Error_def WriteHeader_def Header_Set_def
  Header_Add_def Encode_def w0_def

section \<open>C1: an unauthorized request is answered with NotFound\<close>

text \<open>
  Claim C1 holds of the specification and fails on the code. The gate answers an
  unauthorized identity with status 404 and an empty message, but a lookup that finds
  nothing is answered with status 404 and the text of the lookup error, so the two
  answers differ in their bodies. In the sample deployment the identity without any
  access asks for two checks without \<open>dc\<close> parameter: for \<open>disk\<close>, which exists in \<open>east\<close>
  and is hidden from it, the message is empty; for \<open>mem\<close>, which exists nowhere, the
  message is the resolver's error. With \<open>dc=east\<close> given, the same identity is refused
  \<open>mem\<close> with an empty message, while the operator is told that \<open>mem\<close> could not be
  found in \<open>east\<close>.
\<close>

theorem denial_distinguishable_from_absence:
  "out (checkHandler sampleEnv sampleUchiwa
         (mkRequest ''GET'' ''/checks/disk'' [] (None :: unit option) stranger))
     = Reply \<lparr>header = [(''Content-Type'', ''text/plain; charset=utf-8''),
                         (''X-Content-Type-Options'', ''nosniff'')],
              status = 404, body = Text [CHR 0x0A]\<rparr>
   \<and> out (checkHandler sampleEnv sampleUchiwa
         (mkRequest ''GET'' ''/checks/mem'' [] (None :: unit option) stranger))
     = Reply \<lparr>header = [(''Content-Type'', ''text/plain; charset=utf-8''),
                         (''X-Content-Type-Options'', ''nosniff'')],
              status = 404, body = Text (''Could not find mem'' @ [CHR 0x0A])\<rparr>
   \<and> out (checkHandler sampleEnv sampleUchiwa
         (mkRequest ''GET'' ''/checks/mem'' ''east'' (None :: unit option) stranger))
     = Reply \<lparr>header = [(''Content-Type'', ''text/plain; charset=utf-8''),
                         (''X-Content-Type-Options'', ''nosniff'')],
              status = 404, body = Text [CHR 0x0A]\<rparr>
   \<and> out (checkHandler sampleEnv sampleUchiwa
         (mkRequest ''GET'' ''/checks/mem'' ''east'' (None :: unit option) operator))
     = Reply \<lparr>header = [(''Content-Type'', ''text/plain; charset=utf-8''),
                         (''X-Content-Type-Options'', ''nosniff'')],
              status = 404, body = Text (''Could not find mem in east'' @ [CHR 0x0A])\<rparr>
   \<and> Text [CHR 0x0A] \<noteq> Text (''Could not find mem'' @ [CHR 0x0A])
   \<and> Text [CHR 0x0A] \<noteq> Text (''Could not find mem in east'' @ [CHR 0x0A])"
  by (simp add: checkHandler_def targetDatacenter_def resolveDatacenter_def Let_def
        response_simps sample_simps)

section \<open>C2: which datacenter a lookup with one visible match is resolved to\<close>

text \<open>
  Claim C2 holds of the specification and fails on the code. After filtering, the
  handlers read the datacenter from \<open>checks[0]\<close>, the first element of the unfiltered
  result of \<open>find*\<close>, and not from the single visible match. In the sample deployment the
  check \<open>cpu\<close> exists in \<open>west\<close> and in \<open>east\<close>, in this order, and the identity with
  access to \<open>east\<close> alone sees exactly the match of \<open>east\<close>. Its lookup without \<open>dc\<close>
  parameter is resolved to \<open>west\<close> and refused with 404, no reading method being called,
  although the same request with \<open>dc=east\<close> delivers the check.
\<close>

theorem single_visible_match_resolved_to_first_unfiltered:
  "findCheck sampleEnv sampleUchiwa ''cpu''
     = Inr (Some [obj ''west'' ''cpu'', obj ''east'' ''cpu''])
   \<and> Filters_Checks sampleEnv (Some [obj ''west'' ''cpu'', obj ''east'' ''cpu'']) eastViewer
     = Some [obj ''east'' ''cpu'']
   \<and> targetDatacenter (findCheck sampleEnv sampleUchiwa) (Filters_Checks sampleEnv) ''cpu''
       (mkRequest ''GET'' ''/checks/cpu'' [] (None :: unit option) eastViewer)
     = Inr ''west''
   \<and> checkHandler sampleEnv sampleUchiwa
       (mkRequest ''GET'' ''/checks/cpu'' [] (None :: unit option) eastViewer)
     = reply sampleUchiwa [] (http_Error [] 404 w0)
   \<and> checkHandler sampleEnv sampleUchiwa
       (mkRequest ''GET'' ''/checks/cpu'' ''east'' (None :: unit option) eastViewer)
     = reply sampleUchiwa [GetCheck ''east'' ''cpu''] (Encode (DVal (obj ''east'' ''cpu'')) w0)"
  by (simp add: checkHandler_def targetDatacenter_def resolveDatacenter_def Let_def sample_simps)

section \<open>C3: silence entries that violate the policy are not sent\<close>

lemma setCreator_keeps:
  "setCreator tok d = Some d' \<Longrightarrow>
   Expire d' = Expire d \<and> ExpireOnResolve d' = ExpireOnResolve d \<and> Reason d' = Reason d
   \<and> Dc d' = Dc d"
  by (auto simp add: setCreator_def split: option.splits gval.splits)

text \<open>
  Claim C3, as stated, fails: the authorization gate comes before the policy, so an
  entry that violates the policy, POSTed by an identity that is not authorized for the
  entry's datacenter, is rejected with an empty message and not with a descriptive
  reason. In the sample deployment a reason is required; the identity with access to
  \<open>east\<close> alone POSTs an entry for \<open>west\<close> without a reason.
\<close>

theorem unauthorized_violation_has_no_reason_counterexample:
  "RequireSilencingReason (UsersOptions sampleUchiwa)
   \<and> Reason \<lparr>Dc = ''west'', Creator = ''mallory'', Expire = 3600, ExpireOnResolve = False,
              Reason = []\<rparr> = []
   \<and> silencedHandler sampleEnv sampleUchiwa
       (mkRequest ''POST'' ''/silenced'' []
          (Some \<lparr>Dc = ''west'', Creator = ''mallory'', Expire = 3600, ExpireOnResolve = False,
                 Reason = []\<rparr>) eastViewer)
     = \<lparr>out = Reply \<lparr>header = [(''Content-Type'', ''text/plain; charset=utf-8''),
                                 (''X-Content-Type-Options'', ''nosniff'')],
                      status = 404, body = Text [CHR 0x0A]\<rparr>,
        calls = [], state = sampleUchiwa\<rparr>"
  by (simp add: silencedHandler_def Let_def response_simps sample_simps)

text \<open>
  Claim C3, amended. Take a POST to the silenced endpoint whose body decodes to an entry
  that violates the policy: \<open>RequireSilencingReason\<close> is set and the reason is empty, or
  \<open>DisableNoExpiration\<close> is set and the entry is open-ended (\<open>Expire < 1\<close> and not
  \<open>ExpireOnResolve\<close>). Then \<open>PostSilence\<close> is not called, whatever else holds of the
  request, and a request to create the entry (its path is not that of
  \<open>/silenced/clear\<close>) is answered with status 404, unless the handler panics on a
  username claim that is not a string. When the identity is authorized for the entry's
  datacenter (and the username claim is absent or a string), the message names the
  violated rule, the open-ended rule being tested first, and no method at all is
  called. When the identity is not authorized for the entry's datacenter, the message
  is empty and no method is called either.
\<close>

theorem policy_violation_is_rejected_locally:
  "Method r = ''POST'' \<Longrightarrow> Decoded r = Some d \<Longrightarrow>
   (RequireSilencingReason (UsersOptions u) \<and> Reason d = [])
     \<or> (DisableNoExpiration (UsersOptions u) \<and> Expire d < 1 \<and> \<not> ExpireOnResolve d) \<Longrightarrow>
   reason = (if DisableNoExpiration (UsersOptions u) \<and> Expire d < 1 \<and> \<not> ExpireOnResolve d
             then ''Open-ended silence entries are disallowed''
             else ''A reason must be provided for every silence entry'') \<Longrightarrow>
   \<not> issuesPostSilence (silencedHandler env u r)
   \<and> (\<not> (2 < length (Split (Path r)) \<and> Split (Path r) ! 2 = ''clear'')
      \<longrightarrow> (case out (silencedHandler env u r) of
             Panic \<Rightarrow> setCreator (Token r) d = None
           | Reply w \<Rightarrow> status w = 404))
   \<and> (\<not> Filters_GetRequest env (Dc d) (Token r) \<and> setCreator (Token r) d \<noteq> None
       \<and> \<not> (2 < length (Split (Path r)) \<and> Split (Path r) ! 2 = ''clear'')
      \<longrightarrow> silencedHandler env u r
            = \<lparr>out = Reply \<lparr>header = [(''Content-Type'', ''text/plain; charset=utf-8''),
                                        (''X-Content-Type-Options'', ''nosniff'')],
                             status = 404, body = Text (reason @ [CHR 0x0A])\<rparr>,
               calls = [], state = u\<rparr>)
   \<and> (Filters_GetRequest env (Dc d) (Token r)
      \<longrightarrow> silencedHandler env u r
            = \<lparr>out = Reply \<lparr>header = [(''Content-Type'', ''text/plain; charset=utf-8''),
                                        (''X-Content-Type-Options'', ''nosniff'')],
                             status = 404, body = Text [CHR 0x0A]\<rparr>,
               calls = [], state = u\<rparr>)"
  by (auto simp add: silencedHandler_def Let_def response_simps Dispatch_def
        issuesPostSilence_def dest!: setCreator_keeps split: option.splits)

theorem policy_violation_is_rejected_locally_witness:
  "silencedHandler sampleEnv sampleUchiwa
       (mkRequest ''POST'' ''/silenced'' []
          (Some \<lparr>Dc = ''east'', Creator = ''mallory'', Expire = 0, ExpireOnResolve = False,
                 Reason = ''maintenance''\<rparr>) eastViewer)
     = \<lparr>out = Reply \<lparr>header = [(''Content-Type'', ''text/plain; charset=utf-8''),
                                 (''X-Content-Type-Options'', ''nosniff'')],
                      status = 404,
                      body = Text (''Open-ended silence entries are disallowed'' @ [CHR 0x0A])\<rparr>,
        calls = [], state = sampleUchiwa\<rparr>
   \<and> silencedHandler sampleEnv sampleUchiwa
       (mkRequest ''POST'' ''/silenced'' []
          (Some \<lparr>Dc = ''east'', Creator = ''mallory'', Expire = 3600, ExpireOnResolve = False,
                 Reason = []\<rparr>) eastViewer)
     = \<lparr>out = Reply \<lparr>header = [(''Content-Type'', ''text/plain; charset=utf-8''),
                                 (''X-Content-Type-Options'', ''nosniff'')],
                      status = 404,
                      body = Text (''A reason must be provided for every silence entry''
                                     @ [CHR 0x0A])\<rparr>,
        calls = [], state = sampleUchiwa\<rparr>
   \<and> \<not> issuesPostSilence (silencedHandler sampleEnv sampleUchiwa
       (mkRequest ''POST'' ''/silenced'' []
          (Some \<lparr>Dc = ''west'', Creator = ''mallory'', Expire = 3600, ExpireOnResolve = False,
                 Reason = []\<rparr>) eastViewer))"
proof -
  have a: "silencedHandler sampleEnv sampleUchiwa
       (mkRequest ''POST'' ''/silenced'' []
          (Some \<lparr>Dc = ''east'', Creator = ''mallory'', Expire = 0, ExpireOnResolve = False,
                 Reason = ''maintenance''\<rparr>) eastViewer)
     = \<lparr>out = Reply \<lparr>header = [(''Content-Type'', ''text/plain; charset=utf-8''),
                                 (''X-Content-Type-Options'', ''nosniff'')],
                      status = 404,
                      body = Text (''Open-ended silence entries are disallowed'' @ [CHR 0x0A])\<rparr>,
        calls = [], state = sampleUchiwa\<rparr>"
    using policy_violation_is_rejected_locally [of
      "mkRequest ''POST'' ''/silenced'' []
          (Some \<lparr>Dc = ''east'', Creator = ''mallory'', Expire = 0, ExpireOnResolve = False,
                 Reason = ''maintenance''\<rparr>) eastViewer"
      "\<lparr>Dc = ''east'', Creator = ''mallory'', Expire = 0, ExpireOnResolve = False,
                 Reason = ''maintenance''\<rparr>" sampleUchiwa
      "''Open-ended silence entries are disallowed''" sampleEnv]
    by (simp add: sample_simps setCreator_def usernameClaim_def)
  have b: "silencedHandler sampleEnv sampleUchiwa
       (mkRequest ''POST'' ''/silenced'' []
          (Some \<lparr>Dc = ''east'', Creator = ''mallory'', Expire = 3600, ExpireOnResolve = False,
                 Reason = []\<rparr>) eastViewer)
     = \<lparr>out = Reply \<lparr>header = [(''Content-Type'', ''text/plain; charset=utf-8''),
                                 (''X-Content-Type-Options'', ''nosniff'')],
                      status = 404,
                      body = Text (''A reason must be provided for every silence entry''
                                     @ [CHR 0x0A])\<rparr>,
        calls = [], state = sampleUchiwa\<rparr>"
    using policy_violation_is_rejected_locally [of
      "mkRequest ''POST'' ''/silenced'' []
          (Some \<lparr>Dc = ''east'', Creator = ''mallory'', Expire = 3600, ExpireOnResolve = False,
                 Reason = []\<rparr>) eastViewer"
      "\<lparr>Dc = ''east'', Creator = ''mallory'', Expire = 3600, ExpireOnResolve = False,
                 Reason = []\<rparr>" sampleUchiwa
      "''A reason must be provided for every silence entry''" sampleEnv]
    by (simp add: sample_simps setCreator_def usernameClaim_def)
  have c: "\<not> issuesPostSilence (silencedHandler sampleEnv sampleUchiwa
       (mkRequest ''POST'' ''/silenced'' []
          (Some \<lparr>Dc = ''west'', Creator = ''mallory'', Expire = 3600, ExpireOnResolve = False,
                 Reason = []\<rparr>) eastViewer))"
    using policy_violation_is_rejected_locally [THEN conjunct1, of
      "mkRequest ''POST'' ''/silenced'' []
          (Some \<lparr>Dc = ''west'', Creator = ''mallory'', Expire = 3600, ExpireOnResolve = False,
                 Reason = []\<rparr>) eastViewer"
      "\<lparr>Dc = ''west'', Creator = ''mallory'', Expire = 3600, ExpireOnResolve = False,
                 Reason = []\<rparr>" sampleUchiwa
      "''A reason must be provided for every silence entry''" sampleEnv]
    by (simp add: sample_simps setCreator_def usernameClaim_def)
  from a b c show ?thesis by simp
qed

section \<open>C4: an ambiguous lookup is answered with all visible candidates\<close>

lemma multipleChoices_status:
  "status (multipleChoices v r) = 300"
  by (simp add: multipleChoices_def Encode_def gzEncode_def WriteHeader_def Header_Add_def w0_def Let_def)

lemma multipleChoices_body:
  "body (multipleChoices v r)
     = (if Contains (Accept_Encoding r) ''gzip'' then Gzip (DSlice v) else Json (DSlice v))"
  by (simp add: multipleChoices_def Encode_def gzEncode_def WriteHeader_def Header_Add_def w0_def Let_def)

text \<open>
  Claim C4. When a lookup without \<open>dc\<close> parameter finds matches of which more than one
  passes the authorization filter, each of the six resolving handlers answers with
  status 300 (multiple choices) and a body that encodes exactly the slice the filter
  returned, that is every visible candidate as \<open>find*\<close> delivered it, datacenter tag
  included. The handler calls no reading and no command method: it proceeds with none
  of the candidates.
\<close>

theorem ambiguous_lookup_lists_all_candidates:
  "Query_dc r = [] \<Longrightarrow>
   ((Method r = ''GET'' \<or> Method r = ''HEAD'' \<or> Method r = ''DELETE'')
      \<and> 3 \<le> length (Split (Path r)) \<and> Split (Path r) ! 2 \<noteq> []
      \<and> findAggregate env u (Split (Path r) ! 2) = Inr objs
      \<and> 1 < len (Filters_Aggregates env objs (Token r))
    \<longrightarrow> aggregateHandler env u r
          = reply u [] (multipleChoices (Filters_Aggregates env objs (Token r)) r))
   \<and> ((Method r = ''GET'' \<or> Method r = ''HEAD'')
      \<and> 3 \<le> length (Split (Path r)) \<and> Split (Path r) ! 2 \<noteq> []
      \<and> findCheck env u (Split (Path r) ! 2) = Inr objs
      \<and> 1 < len (Filters_Checks env objs (Token r))
    \<longrightarrow> checkHandler env u r
          = reply u [] (multipleChoices (Filters_Checks env objs (Token r)) r))
   \<and> ((Method r = ''DELETE'' \<or> Method r = ''GET'' \<or> Method r = ''HEAD'')
      \<and> 3 \<le> length (Split (Path r)) \<and> Split (Path r) ! 2 \<noteq> []
      \<and> findClient env u (Split (Path r) ! 2) = Inr objs
      \<and> 1 < len (Filters_Clients env objs (Token r))
    \<longrightarrow> clientHandler env u r
          = reply u [] (multipleChoices (Filters_Clients env objs (Token r)) r))
   \<and> (Method r = ''DELETE'' \<and> length (Split (Path r)) = 4
      \<and> findClient env u (Split (Path r) ! 2) = Inr objs
      \<and> 1 < len (Filters_Clients env objs (Token r))
    \<longrightarrow> eventHandler env u r
          = reply u [] (multipleChoices (Filters_Clients env objs (Token r)) r)
        \<and> resultsHandler env u r
          = reply u [] (multipleChoices (Filters_Clients env objs (Token r)) r))
   \<and> (Method r = ''DELETE'' \<and> 3 \<le> length (Split (Path r)) \<and> Split (Path r) ! 2 \<noteq> []
      \<and> findStash env u (Join (drop 2 (Split (Path r)))) = Inr objs
      \<and> 1 < len (Filters_Stashes env objs (Token r))
    \<longrightarrow> stashHandler env u r
          = reply u [] (multipleChoices (Filters_Stashes env objs (Token r)) r))
   \<and> status (multipleChoices visible r) = 300
   \<and> body (multipleChoices visible r)
       = (if Contains (Accept_Encoding r) ''gzip'' then Gzip (DSlice visible)
          else Json (DSlice visible))"
  by (simp add: target_multiple aggregateHandler_stop checkHandler_stop clientHandler_stop
        eventHandler_stop resultsHandler_stop stashHandler_stop reply_def
        multipleChoices_status multipleChoices_body)

theorem ambiguous_lookup_lists_all_candidates_witness:
  "aggregateHandler sampleEnv sampleUchiwa
       (mkRequest ''GET'' ''/aggregates/load'' [] (None :: unit option) operator)
     = reply sampleUchiwa []
         (multipleChoices (Some [obj ''east'' ''load'', obj ''west'' ''load''])
            (mkRequest ''GET'' ''/aggregates/load'' [] (None :: unit option) operator))
   \<and> checkHandler sampleEnv sampleUchiwa
       (mkRequest ''GET'' ''/checks/cpu'' [] (None :: unit option) operator)
     = reply sampleUchiwa []
         (multipleChoices (Some [obj ''west'' ''cpu'', obj ''east'' ''cpu''])
            (mkRequest ''GET'' ''/checks/cpu'' [] (None :: unit option) operator))
   \<and> clientHandler sampleEnv sampleUchiwa
       (mkRequest ''DELETE'' ''/clients/web01'' [] (None :: unit option) operator)
     = reply sampleUchiwa []
         (multipleChoices (Some [obj ''east'' ''web01'', obj ''west'' ''web01''])
            (mkRequest ''DELETE'' ''/clients/web01'' [] (None :: unit option) operator))
   \<and> eventHandler sampleEnv sampleUchiwa
       (mkRequest ''DELETE'' ''/events/web01/cpu'' [] (None :: unit option) operator)
     = reply sampleUchiwa []
         (multipleChoices (Some [obj ''east'' ''web01'', obj ''west'' ''web01''])
            (mkRequest ''DELETE'' ''/events/web01/cpu'' [] (None :: unit option) operator))
   \<and> resultsHandler sampleEnv sampleUchiwa
       (mkRequest ''DELETE'' ''/results/web01/cpu'' [] (None :: unit option) operator)
     = reply sampleUchiwa []
         (multipleChoices (Some [obj ''east'' ''web01'', obj ''west'' ''web01''])
            (mkRequest ''DELETE'' ''/results/web01/cpu'' [] (None :: unit option) operator))
   \<and> stashHandler sampleEnv sampleUchiwa
       (mkRequest ''DELETE'' ''/stashes/silence/web01'' [] (None :: unit option) operator)
     = reply sampleUchiwa []
         (multipleChoices (Some [obj ''east'' ''silence/web01'', obj ''west'' ''silence/web01''])
            (mkRequest ''DELETE'' ''/stashes/silence/web01'' [] (None :: unit option) operator))
   \<and> status (multipleChoices (Some [obj ''west'' ''cpu'', obj ''east'' ''cpu''])
         (mkRequest ''GET'' ''/checks/cpu'' [] (None :: unit option) operator)) = 300
   \<and> body (multipleChoices (Some [obj ''west'' ''cpu'', obj ''east'' ''cpu''])
         (mkRequest ''GET'' ''/checks/cpu'' [] (None :: unit option) operator))
       = Json (DSlice (Some [obj ''west'' ''cpu'', obj ''east'' ''cpu'']))"
proof -
  have f: "\<And>p. Query_dc (mkRequest m p [] (None :: unit option) operator) = []" for m
    by (simp add: mkRequest_def)
  have a: "aggregateHandler sampleEnv sampleUchiwa
       (mkRequest ''GET'' ''/aggregates/load'' [] (None :: unit option) operator)
     = reply sampleUchiwa []
         (multipleChoices (Some [obj ''east'' ''load'', obj ''west'' ''load''])
            (mkRequest ''GET'' ''/aggregates/load'' [] (None :: unit option) operator))"
    using ambiguous_lookup_lists_all_candidates [OF f, of "''GET''" "''/aggregates/load''"
       sampleEnv sampleUchiwa "Some [obj ''east'' ''load'', obj ''west'' ''load'']"]
    by (simp add: sample_simps)
  have b: "checkHandler sampleEnv sampleUchiwa
       (mkRequest ''GET'' ''/checks/cpu'' [] (None :: unit option) operator)
     = reply sampleUchiwa []
         (multipleChoices (Some [obj ''west'' ''cpu'', obj ''east'' ''cpu''])
            (mkRequest ''GET'' ''/checks/cpu'' [] (None :: unit option) operator))
     \<and> status (multipleChoices (Some [obj ''west'' ''cpu'', obj ''east'' ''cpu''])
         (mkRequest ''GET'' ''/checks/cpu'' [] (None :: unit option) operator)) = 300
     \<and> body (multipleChoices (Some [obj ''west'' ''cpu'', obj ''east'' ''cpu''])
         (mkRequest ''GET'' ''/checks/cpu'' [] (None :: unit option) operator))
       = Json (DSlice (Some [obj ''west'' ''cpu'', obj ''east'' ''cpu'']))"
    using ambiguous_lookup_lists_all_candidates [OF f, of "''GET''" "''/checks/cpu''"
       sampleEnv sampleUchiwa "Some [obj ''west'' ''cpu'', obj ''east'' ''cpu'']"
       "Some [obj ''west'' ''cpu'', obj ''east'' ''cpu'']"]
    by (simp add: sample_simps)
  have c: "clientHandler sampleEnv sampleUchiwa
       (mkRequest ''DELETE'' ''/clients/web01'' [] (None :: unit option) operator)
     = reply sampleUchiwa []
         (multipleChoices (Some [obj ''east'' ''web01'', obj ''west'' ''web01''])
            (mkRequest ''DELETE'' ''/clients/web01'' [] (None :: unit option) operator))"
    using ambiguous_lookup_lists_all_candidates [OF f, of "''DELETE''" "''/clients/web01''"
       sampleEnv sampleUchiwa "Some [obj ''east'' ''web01'', obj ''west'' ''web01'']"]
    by (simp add: sample_simps)
  have d: "eventHandler sampleEnv sampleUchiwa
       (mkRequest ''DELETE'' ''/events/web01/cpu'' [] (None :: unit option) operator)
     = reply sampleUchiwa []
         (multipleChoices (Some [obj ''east'' ''web01'', obj ''west'' ''web01''])
            (mkRequest ''DELETE'' ''/events/web01/cpu'' [] (None :: unit option) operator))"
    using ambiguous_lookup_lists_all_candidates [OF f, of "''DELETE''" "''/events/web01/cpu''"
       sampleEnv sampleUchiwa "Some [obj ''east'' ''web01'', obj ''west'' ''web01'']"]
    by (simp add: sample_simps)
  have e: "resultsHandler sampleEnv sampleUchiwa
       (mkRequest ''DELETE'' ''/results/web01/cpu'' [] (None :: unit option) operator)
     = reply sampleUchiwa []
         (multipleChoices (Some [obj ''east'' ''web01'', obj ''west'' ''web01''])
            (mkRequest ''DELETE'' ''/results/web01/cpu'' [] (None :: unit option) operator))"
    using ambiguous_lookup_lists_all_candidates [OF f, of "''DELETE''" "''/results/web01/cpu''"
       sampleEnv sampleUchiwa "Some [obj ''east'' ''web01'', obj ''west'' ''web01'']"]
    by (simp add: sample_simps)
  have g: "stashHandler sampleEnv sampleUchiwa
       (mkRequest ''DELETE'' ''/stashes/silence/web01'' [] (None :: unit option) operator)
     = reply sampleUchiwa []
         (multipleChoices (Some [obj ''east'' ''silence/web01'', obj ''west'' ''silence/web01''])
            (mkRequest ''DELETE'' ''/stashes/silence/web01'' [] (None :: unit option) operator))"
    using ambiguous_lookup_lists_all_candidates [OF f, of "''DELETE''" "''/stashes/silence/web01''"
       sampleEnv sampleUchiwa
       "Some [obj ''east'' ''silence/web01'', obj ''west'' ''silence/web01'']"]
    by (simp add: sample_simps)
  from a b c d e g show ?thesis by simp
qed

section \<open>C5: a command leaves the cached data as it was\<close>

lemma clientHandler_state: "state (clientHandler env u r) = u"
  by (simp add: clientHandler_def Let_def reply_def Dispatch_def
        split: sum.splits option.splits)

lemma eventHandler_state: "state (eventHandler env u r) = u"
  by (simp add: eventHandler_def Let_def reply_def Dispatch_def
        split: sum.splits option.splits)

lemma resultsHandler_state: "state (resultsHandler env u r) = u"
  by (simp add: resultsHandler_def Let_def reply_def Dispatch_def
        split: sum.splits option.splits)

lemma stashHandler_state: "state (stashHandler env u r) = u"
  by (simp add: stashHandler_def Let_def reply_def panic_def Dispatch_def
        split: sum.splits option.splits)

lemma silencedHandler_state: "state (silencedHandler env u r) = u"
  by (simp add: silencedHandler_def Let_def reply_def panic_def Dispatch_def
        split: sum.splits option.splits)

lemma stashesHandler_state: "state (stashesHandler env u r) = u"
  by (simp add: stashesHandler_def Let_def reply_def panic_def Dispatch_def
        split: sum.splits option.splits)

lemma aggregateHandler_state: "state (aggregateHandler env u r) = u"
  by (simp add: aggregateHandler_def Let_def reply_def Dispatch_def
        split: sum.splits option.splits)

lemma clientsHandler_state: "state (clientsHandler env u r) = u"
  by (simp add: clientsHandler_def Let_def reply_def Dispatch_def
        split: sum.splits option.splits)

text \<open>
  Claim C5. Whatever the request and whatever the datacenter answers, the handlers that
  send a command (delete a client, resolve an event, delete a check result, delete a
  stash, create or clear a silence entry, create a stash, and also delete an aggregate
  and update a client) return with \<open>u.Data\<close> as they found it: server.go assigns to no
  field of \<open>u\<close>, and the command methods, as the specification describes them, leave the
  cache to the next poll. A collection read after the command therefore answers as it
  did before.
\<close>

theorem commands_leave_cache_unchanged:
  "Data (state (clientHandler env u r)) = Data u
   \<and> Data (state (eventHandler env u r)) = Data u
   \<and> Data (state (resultsHandler env u r)) = Data u
   \<and> Data (state (stashHandler env u r)) = Data u
   \<and> Data (state (silencedHandler env u rs)) = Data u
   \<and> Data (state (stashesHandler env u rt)) = Data u
   \<and> Data (state (aggregateHandler env u r)) = Data u
   \<and> Data (state (clientsHandler env u rc)) = Data u
   \<and> clientsHandler env (state (clientHandler env u r)) q = clientsHandler env u q
   \<and> eventsHandler env (state (eventHandler env u r)) q' = eventsHandler env u q'"
  by (simp add: clientHandler_state eventHandler_state resultsHandler_state stashHandler_state
        silencedHandler_state stashesHandler_state aggregateHandler_state clientsHandler_state)

section \<open>C6: a POSTed client passes the filter before it is forwarded\<close>

text \<open>
  Claim C6. On a POST to \<open>/clients\<close> whose body decodes to a payload, the handler asks
  \<open>Filters.Client\<close> about that payload. When the filter refuses, the answer has status
  404 and an empty message, and no method is called, \<open>UpdateClient\<close> in particular.
  When it accepts, \<open>UpdateClient\<close> is called once, with the payload, and the answer has
  status 201 when the datacenter accepts it. A payload that reaches \<open>UpdateClient\<close> is
  therefore the decoded one and has passed the filter.
\<close>

theorem posted_client_is_filtered:
  "Method r = ''POST'' \<Longrightarrow> Decoded r = Some payload \<Longrightarrow>
   (\<not> Filters_Client env payload (Token r)
      \<longrightarrow> clientsHandler env u r
            = \<lparr>out = Reply \<lparr>header = [(''Content-Type'', ''text/plain; charset=utf-8''),
                                        (''X-Content-Type-Options'', ''nosniff'')],
                             status = 404, body = Text [CHR 0x0A]\<rparr>,
               calls = [], state = u\<rparr>)
   \<and> (Filters_Client env payload (Token r)
      \<longrightarrow> calls (clientsHandler env u r) = [UpdateClient payload])
   \<and> (Filters_Client env payload (Token r) \<and> remote env u (UpdateClient payload) = None
      \<longrightarrow> out (clientsHandler env u r)
            = Reply \<lparr>header = [], status = 201, body = NoBody\<rparr>)
   \<and> (\<forall>p. UpdateClient p \<in> set (calls (clientsHandler env u r))
      \<longrightarrow> p = payload \<and> Filters_Client env p (Token r))"
  by (auto simp add: clientsHandler_def Let_def response_simps Dispatch_def
        split: option.splits)

theorem posted_client_is_filtered_witness:
  "clientsHandler sampleEnv sampleUchiwa
       (mkRequest ''POST'' ''/clients'' [] (Some (obj ''west'' ''web02'')) eastViewer)
     = \<lparr>out = Reply \<lparr>header = [(''Content-Type'', ''text/plain; charset=utf-8''),
                                 (''X-Content-Type-Options'', ''nosniff'')],
                      status = 404, body = Text [CHR 0x0A]\<rparr>,
        calls = [], state = sampleUchiwa\<rparr>
   \<and> calls (clientsHandler sampleEnv sampleUchiwa
       (mkRequest ''POST'' ''/clients'' [] (Some (obj ''east'' ''web02'')) eastViewer))
     = [UpdateClient (obj ''east'' ''web02'')]
   \<and> out (clientsHandler sampleEnv sampleUchiwa
       (mkRequest ''POST'' ''/clients'' [] (Some (obj ''east'' ''web02'')) eastViewer))
     = Reply \<lparr>header = [], status = 201, body = NoBody\<rparr>"
proof -
  have a: "clientsHandler sampleEnv sampleUchiwa
       (mkRequest ''POST'' ''/clients'' [] (Some (obj ''west'' ''web02'')) eastViewer)
     = \<lparr>out = Reply \<lparr>header = [(''Content-Type'', ''text/plain; charset=utf-8''),
                                 (''X-Content-Type-Options'', ''nosniff'')],
                      status = 404, body = Text [CHR 0x0A]\<rparr>,
        calls = [], state = sampleUchiwa\<rparr>"
    using posted_client_is_filtered [THEN conjunct1, of
      "mkRequest ''POST'' ''/clients'' [] (Some (obj ''west'' ''web02'')) eastViewer"
      "obj ''west'' ''web02''" sampleEnv sampleUchiwa]
    by (simp add: sample_simps)
  have b: "calls (clientsHandler sampleEnv sampleUchiwa
       (mkRequest ''POST'' ''/clients'' [] (Some (obj ''east'' ''web02'')) eastViewer))
     = [UpdateClient (obj ''east'' ''web02'')]"
    using posted_client_is_filtered [THEN conjunct2, THEN conjunct1, of
      "mkRequest ''POST'' ''/clients'' [] (Some (obj ''east'' ''web02'')) eastViewer"
      "obj ''east'' ''web02''" sampleEnv sampleUchiwa]
    by (simp add: sample_simps)
  have c: "out (clientsHandler sampleEnv sampleUchiwa
       (mkRequest ''POST'' ''/clients'' [] (Some (obj ''east'' ''web02'')) eastViewer))
     = Reply \<lparr>header = [], status = 201, body = NoBody\<rparr>"
    using posted_client_is_filtered [THEN conjunct2, THEN conjunct2, THEN conjunct1, of
      "mkRequest ''POST'' ''/clients'' [] (Some (obj ''east'' ''web02'')) eastViewer"
      "obj ''east'' ''web02''" sampleEnv sampleUchiwa]
    by (simp add: sample_simps)
  from a b c show ?thesis by simp
qed

section \<open>C7: a failed name resolution ends the request with NotFound\<close>

text \<open>
  Claim C7. A lookup without \<open>dc\<close> parameter whose \<open>find*\<close> call returns an error
  (no match in any datacenter) is answered with status 404 and a body made of the text
  of that error, in each of the six handlers that resolve a name; the handler then has
  called no reading and no command method, and the instance is the one it started from.
\<close>

theorem find_error_is_not_found:
  "Query_dc r = [] \<Longrightarrow>
   notFound = \<lparr>out = Reply \<lparr>header = [(''Content-Type'', ''text/plain; charset=utf-8''),
                                      (''X-Content-Type-Options'', ''nosniff'')],
                           status = 404, body = Text (err @ [CHR 0x0A])\<rparr>,
               calls = [], state = u\<rparr> \<Longrightarrow>
   ((Method r = ''GET'' \<or> Method r = ''HEAD'' \<or> Method r = ''DELETE'')
      \<and> 3 \<le> length (Split (Path r)) \<and> Split (Path r) ! 2 \<noteq> []
      \<and> findAggregate env u (Split (Path r) ! 2) = Inl err
    \<longrightarrow> aggregateHandler env u r = notFound)
   \<and> ((Method r = ''GET'' \<or> Method r = ''HEAD'')
      \<and> 3 \<le> length (Split (Path r)) \<and> Split (Path r) ! 2 \<noteq> []
      \<and> findCheck env u (Split (Path r) ! 2) = Inl err
    \<longrightarrow> checkHandler env u r = notFound)
   \<and> ((Method r = ''DELETE'' \<or> Method r = ''GET'' \<or> Method r = ''HEAD'')
      \<and> 3 \<le> length (Split (Path r)) \<and> Split (Path r) ! 2 \<noteq> []
      \<and> findClient env u (Split (Path r) ! 2) = Inl err
    \<longrightarrow> clientHandler env u r = notFound)
   \<and> (Method r = ''DELETE'' \<and> length (Split (Path r)) = 4
      \<and> findClient env u (Split (Path r) ! 2) = Inl err
    \<longrightarrow> eventHandler env u r = notFound \<and> resultsHandler env u r = notFound)
   \<and> (Method r = ''DELETE'' \<and> 3 \<le> length (Split (Path r)) \<and> Split (Path r) ! 2 \<noteq> []
      \<and> findStash env u (Join (drop 2 (Split (Path r)))) = Inl err
    \<longrightarrow> stashHandler env u r = notFound)"
  by (simp add: target_find_error aggregateHandler_stop checkHandler_stop clientHandler_stop
        eventHandler_stop resultsHandler_stop stashHandler_stop response_simps)

theorem find_error_is_not_found_witness:
  "aggregateHandler sampleEnv sampleUchiwa
       (mkRequest ''GET'' ''/aggregates/none'' [] (None :: unit option) operator)
     = \<lparr>out = Reply \<lparr>header = [(''Content-Type'', ''text/plain; charset=utf-8''),
                                 (''X-Content-Type-Options'', ''nosniff'')],
                      status = 404, body = Text (''Could not find none'' @ [CHR 0x0A])\<rparr>,
        calls = [], state = sampleUchiwa\<rparr>
   \<and> checkHandler sampleEnv sampleUchiwa
       (mkRequest ''GET'' ''/checks/none'' [] (None :: unit option) operator)
     = \<lparr>out = Reply \<lparr>header = [(''Content-Type'', ''text/plain; charset=utf-8''),
                                 (''X-Content-Type-Options'', ''nosniff'')],
                      status = 404, body = Text (''Could not find none'' @ [CHR 0x0A])\<rparr>,
        calls = [], state = sampleUchiwa\<rparr>
   \<and> clientHandler sampleEnv sampleUchiwa
       (mkRequest ''GET'' ''/clients/none'' [] (None :: unit option) operator)
     = \<lparr>out = Reply \<lparr>header = [(''Content-Type'', ''text/plain; charset=utf-8''),
                                 (''X-Content-Type-Options'', ''nosniff'')],
                      status = 404, body = Text (''Could not find none'' @ [CHR 0x0A])\<rparr>,
        calls = [], state = sampleUchiwa\<rparr>
   \<and> eventHandler sampleEnv sampleUchiwa
       (mkRequest ''DELETE'' ''/events/none/cpu'' [] (None :: unit option) operator)
     = \<lparr>out = Reply \<lparr>header = [(''Content-Type'', ''text/plain; charset=utf-8''),
                                 (''X-Content-Type-Options'', ''nosniff'')],
                      status = 404, body = Text (''Could not find none'' @ [CHR 0x0A])\<rparr>,
        calls = [], state = sampleUchiwa\<rparr>
   \<and> resultsHandler sampleEnv sampleUchiwa
       (mkRequest ''DELETE'' ''/results/none/cpu'' [] (None :: unit option) operator)
     = \<lparr>out = Reply \<lparr>header = [(''Content-Type'', ''text/plain; charset=utf-8''),
                                 (''X-Content-Type-Options'', ''nosniff'')],
                      status = 404, body = Text (''Could not find none'' @ [CHR 0x0A])\<rparr>,
        calls = [], state = sampleUchiwa\<rparr>
   \<and> stashHandler sampleEnv sampleUchiwa
       (mkRequest ''DELETE'' ''/stashes/none/cpu'' [] (None :: unit option) operator)
     = \<lparr>out = Reply \<lparr>header = [(''Content-Type'', ''text/plain; charset=utf-8''),
                                 (''X-Content-Type-Options'', ''nosniff'')],
                      status = 404, body = Text (''Could not find none/cpu'' @ [CHR 0x0A])\<rparr>,
        calls = [], state = sampleUchiwa\<rparr>"
proof -
  have f: "\<And>p. Query_dc (mkRequest m p [] (None :: unit option) operator) = []" for m
    by (simp add: mkRequest_def)
  note inst = find_error_is_not_found [OF f refl]
  have a: "aggregateHandler sampleEnv sampleUchiwa
       (mkRequest ''GET'' ''/aggregates/none'' [] (None :: unit option) operator)
     = \<lparr>out = Reply \<lparr>header = [(''Content-Type'', ''text/plain; charset=utf-8''),
                                 (''X-Content-Type-Options'', ''nosniff'')],
                      status = 404, body = Text (''Could not find none'' @ [CHR 0x0A])\<rparr>,
        calls = [], state = sampleUchiwa\<rparr>"
    using inst [of "''GET''" "''/aggregates/none''" sampleEnv sampleUchiwa
       "''Could not find none''"]
    by (simp add: sample_simps)
  have b: "checkHandler sampleEnv sampleUchiwa
       (mkRequest ''GET'' ''/checks/none'' [] (None :: unit option) operator)
     = \<lparr>out = Reply \<lparr>header = [(''Content-Type'', ''text/plain; charset=utf-8''),
                                 (''X-Content-Type-Options'', ''nosniff'')],
                      status = 404, body = Text (''Could not find none'' @ [CHR 0x0A])\<rparr>,
        calls = [], state = sampleUchiwa\<rparr>"
    using inst [of "''GET''" "''/checks/none''" sampleEnv sampleUchiwa
       "''Could not find none''"]
    by (simp add: sample_simps)
  have c: "clientHandler sampleEnv sampleUchiwa
       (mkRequest ''GET'' ''/clients/none'' [] (None :: unit option) operator)
     = \<lparr>out = Reply \<lparr>header = [(''Content-Type'', ''text/plain; charset=utf-8''),
                                 (''X-Content-Type-Options'', ''nosniff'')],
                      status = 404, body = Text (''Could not find none'' @ [CHR 0x0A])\<rparr>,
        calls = [], state = sampleUchiwa\<rparr>"
    using inst [of "''GET''" "''/clients/none''" sampleEnv sampleUchiwa
       "''Could not find none''"]
    by (simp add: sample_simps)
  have d: "eventHandler sampleEnv sampleUchiwa
       (mkRequest ''DELETE'' ''/events/none/cpu'' [] (None :: unit option) operator)
     = \<lparr>out = Reply \<lparr>header = [(''Content-Type'', ''text/plain; charset=utf-8''),
                                 (''X-Content-Type-Options'', ''nosniff'')],
                      status = 404, body = Text (''Could not find none'' @ [CHR 0x0A])\<rparr>,
        calls = [], state = sampleUchiwa\<rparr>"
    using inst [of "''DELETE''" "''/events/none/cpu''" sampleEnv sampleUchiwa
       "''Could not find none''"]
    by (simp add: sample_simps)
  have e: "resultsHandler sampleEnv sampleUchiwa
       (mkRequest ''DELETE'' ''/results/none/cpu'' [] (None :: unit option) operator)
     = \<lparr>out = Reply \<lparr>header = [(''Content-Type'', ''text/plain; charset=utf-8''),
                                 (''X-Content-Type-Options'', ''nosniff'')],
                      status = 404, body = Text (''Could not find none'' @ [CHR 0x0A])\<rparr>,
        calls = [], state = sampleUchiwa\<rparr>"
    using inst [of "''DELETE''" "''/results/none/cpu''" sampleEnv sampleUchiwa
       "''Could not find none''"]
    by (simp add: sample_simps)
  have g: "stashHandler sampleEnv sampleUchiwa
       (mkRequest ''DELETE'' ''/stashes/none/cpu'' [] (None :: unit option) operator)
     = \<lparr>out = Reply \<lparr>header = [(''Content-Type'', ''text/plain; charset=utf-8''),
                                 (''X-Content-Type-Options'', ''nosniff'')],
                      status = 404, body = Text (''Could not find none/cpu'' @ [CHR 0x0A])\<rparr>,
        calls = [], state = sampleUchiwa\<rparr>"
    using inst [of "''DELETE''" "''/stashes/none/cpu''" sampleEnv sampleUchiwa
       "''Could not find none/cpu''"]
    by (simp add: sample_simps)
  from a b c d e g show ?thesis by simp
qed

section \<open>C8: an empty visible collection is an empty JSON array\<close>

lemma collectionResponse_empty:
  "len filtered = 0 \<Longrightarrow> emptyArrayReply (reply u cs (collectionResponse filtered r))"
  by (simp add: emptyArrayReply_def reply_def collectionResponse_def Let_def Encode_def
        gzEncode_def Header_Set_def Header_Add_def w0_def jsonArrayLen_def)

text \<open>
  Claim C8. On a GET or HEAD of a collection endpoint (aggregates, checks, clients,
  events, silenced, stashes, subscriptions), when the authorization filter returns a
  slice of length zero, be it nil or empty, the handler answers with status 200 and a
  body that encodes a non-nil slice of length zero, which is the JSON array \<open>[]\<close> and
  not \<open>null\<close>. It neither panics nor writes an error status.
\<close>

theorem empty_collection_is_empty_array:
  "((Method r = ''GET'' \<or> Method r = ''HEAD'')
      \<and> len (Filters_Aggregates env (Aggregates (Data u)) (Token r)) = 0
    \<longrightarrow> emptyArrayReply (aggregatesHandler env u r))
   \<and> ((Method r = ''GET'' \<or> Method r = ''HEAD'')
      \<and> len (Filters_Checks env (Checks (Data u)) (Token r)) = 0
    \<longrightarrow> emptyArrayReply (checksHandler env u r))
   \<and> ((Method rc = ''GET'' \<or> Method rc = ''HEAD'')
      \<and> len (Filters_Clients env (Clients (Data u)) (Token rc)) = 0
    \<longrightarrow> emptyArrayReply (clientsHandler env u rc))
   \<and> ((Method r = ''GET'' \<or> Method r = ''HEAD'')
      \<and> len (Filters_Events env (Events (Data u)) (Token r)) = 0
    \<longrightarrow> emptyArrayReply (eventsHandler env u r))
   \<and> ((Method rs = ''GET'' \<or> Method rs = ''HEAD'')
      \<and> len (Filters_Silenced env (Silenced (Data u)) (Token rs)) = 0
    \<longrightarrow> emptyArrayReply (silencedHandler env u rs))
   \<and> ((Method rt = ''GET'' \<or> Method rt = ''HEAD'')
      \<and> len (Filters_Stashes env (Stashes (Data u)) (Token rt)) = 0
    \<longrightarrow> emptyArrayReply (stashesHandler env u rt))
   \<and> ((Method r = ''GET'' \<or> Method r = ''HEAD'')
      \<and> len (Filters_Subscriptions env (Subscriptions (Data u)) (Token r)) = 0
    \<longrightarrow> emptyArrayReply (subscriptionsHandler env u r))"
proof -
  have sub: "emptyArrayReply (reply u [] (Encode (DSubs (Some [])) w0))"
    by (simp add: emptyArrayReply_def reply_def Encode_def w0_def jsonArrayLen_def)
  have a: "(Method r = ''GET'' \<or> Method r = ''HEAD'')
      \<and> len (Filters_Aggregates env (Aggregates (Data u)) (Token r)) = 0
    \<longrightarrow> emptyArrayReply (aggregatesHandler env u r)"
    by (auto simp add: aggregatesHandler_def Let_def collectionResponse_empty)
  have b: "(Method r = ''GET'' \<or> Method r = ''HEAD'')
      \<and> len (Filters_Checks env (Checks (Data u)) (Token r)) = 0
    \<longrightarrow> emptyArrayReply (checksHandler env u r)"
    by (auto simp add: checksHandler_def Let_def collectionResponse_empty)
  have c: "(Method rc = ''GET'' \<or> Method rc = ''HEAD'')
      \<and> len (Filters_Clients env (Clients (Data u)) (Token rc)) = 0
    \<longrightarrow> emptyArrayReply (clientsHandler env u rc)"
    by (auto simp add: clientsHandler_def Let_def collectionResponse_empty)
  have d: "(Method r = ''GET'' \<or> Method r = ''HEAD'')
      \<and> len (Filters_Events env (Events (Data u)) (Token r)) = 0
    \<longrightarrow> emptyArrayReply (eventsHandler env u r)"
    by (auto simp add: eventsHandler_def Let_def collectionResponse_empty)
  have e: "(Method rs = ''GET'' \<or> Method rs = ''HEAD'')
      \<and> len (Filters_Silenced env (Silenced (Data u)) (Token rs)) = 0
    \<longrightarrow> emptyArrayReply (silencedHandler env u rs)"
    by (auto simp add: silencedHandler_def Let_def collectionResponse_empty)
  have f: "(Method rt = ''GET'' \<or> Method rt = ''HEAD'')
      \<and> len (Filters_Stashes env (Stashes (Data u)) (Token rt)) = 0
    \<longrightarrow> emptyArrayReply (stashesHandler env u rt)"
    by (auto simp add: stashesHandler_def Let_def collectionResponse_empty)
  have g: "(Method r = ''GET'' \<or> Method r = ''HEAD'')
      \<and> len (Filters_Subscriptions env (Subscriptions (Data u)) (Token r)) = 0
    \<longrightarrow> emptyArrayReply (subscriptionsHandler env u r)"
    using sub by (auto simp add: subscriptionsHandler_def Let_def)
  from a b c d e f g show ?thesis by blast
qed

theorem empty_collection_is_empty_array_witness:
  "emptyArrayReply (aggregatesHandler sampleEnv sampleUchiwa
      (mkRequest ''GET'' ''/aggregates'' [] (None :: unit option) stranger))
   \<and> emptyArrayReply (checksHandler sampleEnv sampleUchiwa
      (mkRequest ''GET'' ''/aggregates'' [] (None :: unit option) stranger))
   \<and> emptyArrayReply (clientsHandler sampleEnv sampleUchiwa
      (mkRequest ''HEAD'' ''/clients'' [] None stranger))
   \<and> emptyArrayReply (eventsHandler sampleEnv sampleUchiwa
      (mkRequest ''GET'' ''/aggregates'' [] (None :: unit option) stranger))
   \<and> emptyArrayReply (silencedHandler sampleEnv sampleUchiwa
      (mkRequest ''GET'' ''/silenced'' [] None operator))
   \<and> emptyArrayReply (stashesHandler sampleEnv sampleUchiwa
      (mkRequest ''GET'' ''/stashes'' [] None stranger))
   \<and> emptyArrayReply (subscriptionsHandler sampleEnv sampleUchiwa
      (mkRequest ''GET'' ''/aggregates'' [] (None :: unit option) stranger))"
  using empty_collection_is_empty_array [of
      "mkRequest ''GET'' ''/aggregates'' [] (None :: unit option) stranger"
      sampleEnv sampleUchiwa
      "mkRequest ''HEAD'' ''/clients'' [] None stranger"
      "mkRequest ''GET'' ''/silenced'' [] None operator"
      "mkRequest ''GET'' ''/stashes'' [] None stranger"]
  by (simp add: sample_simps)

section \<open>C9: the creator of a silence entry is the user of the token\<close>

lemma setCreator_username:
  "usernameClaim tok = Some (GStr name) \<Longrightarrow> setCreator tok d = Some (d\<lparr>Creator := name\<rparr>)"
  by (simp add: setCreator_def)

text \<open>
  Claim C9. On a POST to the silenced endpoint by a token whose username claim is a
  string, every silence entry the handler hands to \<open>ClearSilenced\<close> or \<open>PostSilence\<close>
  has that username as its creator, and the handler behaves the same whatever creator
  the body supplied. On both paths, clear and create, the entry forwarded for an
  authorized request is the decoded one with \<open>Creator\<close> replaced by the username.
\<close>

theorem creator_is_the_token_username:
  "Method r = ''POST'' \<Longrightarrow> usernameClaim (Token r) = Some (GStr name) \<Longrightarrow>
   list_all (\<lambda>c. forwardedCreator c = Some name) (calls (silencedHandler env u r))
   \<and> (Decoded r = Some d
      \<longrightarrow> silencedHandler env u (r\<lparr>Decoded := Some (d\<lparr>Creator := supplied\<rparr>)\<rparr>)
          = silencedHandler env u r)
   \<and> (Decoded r = Some d \<and> \<not> Filters_GetRequest env (Dc d) (Token r)
       \<and> 2 < length (Split (Path r)) \<and> Split (Path r) ! 2 = ''clear''
      \<longrightarrow> calls (silencedHandler env u r) = [ClearSilenced (d\<lparr>Creator := name\<rparr>)])
   \<and> (Decoded r = Some d \<and> \<not> Filters_GetRequest env (Dc d) (Token r)
       \<and> \<not> (2 < length (Split (Path r)) \<and> Split (Path r) ! 2 = ''clear'')
       \<and> \<not> (DisableNoExpiration (UsersOptions u) \<and> Expire d < 1 \<and> \<not> ExpireOnResolve d)
       \<and> \<not> (RequireSilencingReason (UsersOptions u) \<and> Reason d = [])
      \<longrightarrow> calls (silencedHandler env u r) = [PostSilence (d\<lparr>Creator := name\<rparr>)])"
  by (auto simp add: silencedHandler_def Let_def reply_def panic_def Dispatch_def
        forwardedCreator_def setCreator_username split: option.splits)

theorem creator_is_the_token_username_witness:
  "calls (silencedHandler sampleEnv sampleUchiwa
       (mkRequest ''POST'' ''/silenced/clear'' []
          (Some \<lparr>Dc = ''east'', Creator = ''mallory'', Expire = 0, ExpireOnResolve = False,
                 Reason = []\<rparr>) eastViewer))
     = [ClearSilenced \<lparr>Dc = ''east'', Creator = ''alice'', Expire = 0,
                       ExpireOnResolve = False, Reason = []\<rparr>]
   \<and> calls (silencedHandler sampleEnv sampleUchiwa
       (mkRequest ''POST'' ''/silenced'' []
          (Some \<lparr>Dc = ''east'', Creator = ''mallory'', Expire = 3600, ExpireOnResolve = False,
                 Reason = ''maintenance''\<rparr>) eastViewer))
     = [PostSilence \<lparr>Dc = ''east'', Creator = ''alice'', Expire = 3600,
                     ExpireOnResolve = False, Reason = ''maintenance''\<rparr>]"
  using
    creator_is_the_token_username [of
      "mkRequest ''POST'' ''/silenced/clear'' []
          (Some \<lparr>Dc = ''east'', Creator = ''mallory'', Expire = 0, ExpireOnResolve = False,
                 Reason = []\<rparr>) eastViewer"
      "''alice''" sampleEnv sampleUchiwa
      "\<lparr>Dc = ''east'', Creator = ''mallory'', Expire = 0, ExpireOnResolve = False,
                 Reason = []\<rparr>"]
    creator_is_the_token_username [of
      "mkRequest ''POST'' ''/silenced'' []
          (Some \<lparr>Dc = ''east'', Creator = ''mallory'', Expire = 3600, ExpireOnResolve = False,
                 Reason = ''maintenance''\<rparr>) eastViewer"
      "''alice''" sampleEnv sampleUchiwa
      "\<lparr>Dc = ''east'', Creator = ''mallory'', Expire = 3600, ExpireOnResolve = False,
                 Reason = ''maintenance''\<rparr>"]
  by (simp add: sample_simps usernameClaim_def)

section \<open>C10: a single subscription is judged by the filter alone\<close>



end
